theory Spec2Isabelle
  imports Main "HOL-Library.Sublist"
begin

section \<open>Data model\<close>

text \<open>
  The interfaces of \<^verbatim>\<open>utils/pythonExecutor.ts\<close>. An optional field of the TypeScript
  interface (\<^verbatim>\<open>latest?: string\<close>) is an option: \<open>None\<close> is JavaScript's
  \<^verbatim>\<open>undefined\<close>. JavaScript strings are modelled as HOL strings over ASCII.
\<close>

record PackageInfo =
  name :: string
  version :: string
  latest :: "string option"
  description :: "string option"
  hasUpdate :: "bool option"

record EnvironmentInfo =
  name :: string
  path :: string
  isActive :: bool

text \<open>
  The anonymous object types the source casts the two JSON documents of pip to:
  \<^verbatim>\<open>Array<{name, version}>\<close> for \<^verbatim>\<open>pip list --format=json\<close> and
  \<^verbatim>\<open>Array<{name, version, latest_version}>\<close> for
  \<^verbatim>\<open>pip list --outdated --format=json\<close>.
\<close>

datatype listed = Listed (listed_name: string) (listed_version: string)

datatype outdated =
  Outdated (outdated_name: string) (outdated_version: string) (latest_version: string)

text \<open>The object \<^verbatim>\<open>{command, args, envPath?}\<close> that \<^verbatim>\<open>getPipCommand\<close> returns.\<close>

record PipCommand =
  command :: string
  args :: "string list"
  envPath :: "string option"

text \<open>The object \<^verbatim>\<open>{success, failed}\<close> that \<^verbatim>\<open>updatePackages\<close> returns.\<close>

record UpdateResult =
  success :: "string list"
  failed :: "string list"

text \<open>
  Every rejection of a promise and every \<^verbatim>\<open>throw\<close> of the source is a value of
  \<open>error\<close>:
  \<^item> \<open>CommandFailed code stderr\<close>: \<^verbatim>\<open>executeCommand\<close> saw the process close with a
    code other than 0 (\<open>None\<close> is the \<^verbatim>\<open>null\<close> code of a process killed by a signal);
  \<^item> \<open>SpawnError\<close>: the \<^verbatim>\<open>'error'\<close> event of the spawned process;
  \<^item> \<open>ExecError\<close>: the error that \<^verbatim>\<open>cp.exec\<close> passes to its callback;
  \<^item> \<open>SyntaxError\<close>: what \<^verbatim>\<open>JSON.parse\<close> throws;
  \<^item> \<open>NoPythonFound\<close>: the \<^verbatim>\<open>Error\<close> thrown at the end of \<^verbatim>\<open>getPythonPath\<close>.
\<close>

datatype error =
  CommandFailed "int option" string
  | SpawnError string
  | ExecError string
  | SyntaxError
  | NoPythonFound

section \<open>The host: processes, file system, editor settings\<close>

text \<open>
  What the executor asks of its host is collected in a record \<open>world\<close>. The outcome of
  starting a process may depend on every process started before it (an upgrade changes
  what the next listing prints), so each oracle takes the history of invocations made
  so far.
\<close>

datatype invocation =
  Spawn string "string list"   \<comment> \<open>\<^verbatim>\<open>cp.spawn(cmdPath, args, {shell: true})\<close>\<close>
  | Exec string                \<comment> \<open>\<^verbatim>\<open>cp.exec(command)\<close>\<close>

type_synonym history = "invocation list"

datatype spawn_result =
  Close "int option" string string   \<comment> \<open>the \<^verbatim>\<open>'close'\<close> event: exit code, stdout, stderr\<close>
  | SpawnFailure string              \<comment> \<open>the \<^verbatim>\<open>'error'\<close> event\<close>

datatype exec_result =
  ExecResult "string option" string string   \<comment> \<open>callback arguments: error, stdout, stderr\<close>

datatype stats = IsFile | IsDirectory | IsOther

record world =
  win32 :: bool                                   \<comment> \<open>\<^verbatim>\<open>os.platform() === 'win32'\<close>\<close>
  path_join :: "string list \<Rightarrow> string"             \<comment> \<open>\<^verbatim>\<open>path.join\<close>\<close>
  spawn :: "history \<Rightarrow> string \<Rightarrow> string list \<Rightarrow> spawn_result"
  exec :: "history \<Rightarrow> string \<Rightarrow> exec_result"
  access_X_OK :: "history \<Rightarrow> string \<Rightarrow> bool"        \<comment> \<open>\<^verbatim>\<open>fs.promises.access(p, X_OK)\<close> resolves\<close>
  stat :: "history \<Rightarrow> string \<Rightarrow> stats option"        \<comment> \<open>\<^verbatim>\<open>fs.promises.stat\<close>; \<open>None\<close>: it rejects\<close>
  pythonExtension :: bool                         \<comment> \<open>\<^verbatim>\<open>getExtension('ms-python.python')\<close> is defined\<close>
  defaultInterpreterPath :: "string option"       \<comment> \<open>the setting \<^verbatim>\<open>python.defaultInterpreterPath\<close>\<close>
  workspaceFolders :: "string list option"        \<comment> \<open>the \<^verbatim>\<open>uri.fsPath\<close> of each workspace folder\<close>
  JSON_parse_listed :: "string \<Rightarrow> error + listed list"
  JSON_parse_outdated :: "string \<Rightarrow> error + outdated list"

text \<open>
  \<^verbatim>\<open>JSON.parse\<close> is a parameter, at the two types the source casts its result to; its
  \<open>Inl\<close> results are the outputs it throws on.

  The mutable state of the extension. \<^verbatim>\<open>EnvironmentInfo\<close> objects live in a store:
  the provider's array \<^verbatim>\<open>_environments\<close> and the executor's slot \<^verbatim>\<open>_currentEnv\<close> hold
  references, and \<^verbatim>\<open>setActiveEnvironment\<close> stores in the slot the very object it found
  in the array. \<open>spawned\<close> is the history of processes started, \<open>notifications\<close> the
  messages shown with \<^verbatim>\<open>showErrorMessage\<close>, \<open>fired\<close> counts the tree-data-change
  events. The output channel is an append-only sink that nothing reads back; its lines
  are left out.
\<close>

type_synonym ref = nat

record state =
  heap :: "ref \<Rightarrow> EnvironmentInfo"
  currentEnv :: "ref option"        \<comment> \<open>\<^verbatim>\<open>PythonExecutor._currentEnv\<close>\<close>
  environments :: "ref list"        \<comment> \<open>\<^verbatim>\<open>PipingEnvironmentProvider._environments\<close>\<close>
  spawned :: history
  notifications :: "string list"
  fired :: nat

section \<open>String operations of JavaScript\<close>

definition isSpace :: "char \<Rightarrow> bool" where
  "isSpace c = (c \<in> set [CHR 0x09, CHR 0x0A, CHR 0x0B, CHR 0x0C, CHR 0x0D, CHR '' ''])"

definition trim :: "string \<Rightarrow> string" where
  "trim s = rev (dropWhile isSpace (rev (dropWhile isSpace s)))"

text \<open>\<^verbatim>\<open>s.split('\n')\<close>: never empty.\<close>

fun split_nl :: "string \<Rightarrow> string list" where
  "split_nl [] = [[]]"
| "split_nl (c # cs) =
     (if c = CHR 0x0A then [] # split_nl cs
      else (case split_nl cs of [] \<Rightarrow> [[c]] | l # ls \<Rightarrow> (c # l) # ls))"

definition toLowerCase :: "string \<Rightarrow> string" where
  "toLowerCase s =
     map (\<lambda>c. case map_of (zip ''ABCDEFGHIJKLMNOPQRSTUVWXYZ'' ''abcdefghijklmnopqrstuvwxyz'') c of
               None \<Rightarrow> c
             | Some l \<Rightarrow> l) s"

definition includes_str :: "string \<Rightarrow> string \<Rightarrow> bool" where
  "includes_str s t = sublist t s"

definition startsWith :: "string \<Rightarrow> string \<Rightarrow> bool" where
  "startsWith s t = prefix t s"

definition endsWith :: "string \<Rightarrow> string \<Rightarrow> bool" where
  "endsWith s t = suffix t s"

section \<open>PythonExecutor\<close>

text \<open>
  Every \<^verbatim>\<open>async\<close> method is a function from the host and the state to the settled
  promise (\<open>Inl\<close>: rejected) and the state it leaves. Where a parameter or a local
  variable of the source has the name of a record field of the model, it is shortened:
  \<open>cmd\<close>, \<open>as\<close> and \<open>env\<close> are the parameters \<^verbatim>\<open>command\<close>, \<^verbatim>\<open>args\<close> and
  \<^verbatim>\<open>envPath\<close> of \<^verbatim>\<open>executeCommand\<close>; \<open>succ\<close> and \<open>fl\<close> are the arrays
  \<^verbatim>\<open>success\<close> and \<^verbatim>\<open>failed\<close> of \<^verbatim>\<open>updatePackages\<close>.
\<close>

subsection \<open>Running processes\<close>

text \<open>
  \<^verbatim>\<open>executeSystemCommand\<close>: rejects only when \<^verbatim>\<open>cp.exec\<close> reports an error and
  stderr is not empty.
\<close>

definition executeSystemCommand ::
  "world \<Rightarrow> string \<Rightarrow> state \<Rightarrow> (error + string \<times> string) \<times> state" where
  "executeSystemCommand w cmd s =
     (let s' = s\<lparr>spawned := spawned s @ [Exec cmd]\<rparr> in
      case exec w (spawned s) cmd of
        ExecResult err out errout \<Rightarrow>
          (case err of
             Some e \<Rightarrow> if errout \<noteq> [] then (Inl (ExecError e), s') else (Inr (out, errout), s')
           | None \<Rightarrow> (Inr (out, errout), s')))"

definition testPythonPath :: "world \<Rightarrow> string \<Rightarrow> state \<Rightarrow> bool \<times> state" where
  "testPythonPath w pythonPath s =
     (case executeSystemCommand w ([CHR 0x22] @ pythonPath @ [CHR 0x22] @ '' --version'') s of
        (Inr (out, errout), s') \<Rightarrow> (includes_str (toLowerCase out) ''python'', s')
      | (Inl e, s') \<Rightarrow> (False, s'))"

text \<open>The \<^verbatim>\<open>for (const cmd of pythonCommands)\<close> loop of \<^verbatim>\<open>getPythonPath\<close>.\<close>

fun probePath :: "world \<Rightarrow> string list \<Rightarrow> state \<Rightarrow> (error + string) \<times> state" where
  "probePath w [] s = (Inl NoPythonFound, s)"
| "probePath w (cmd # cmds) s =
     (let whichCmd = (if win32 w then ''where'' else ''which'') in
      case executeSystemCommand w (whichCmd @ '' '' @ cmd) s of
        (Inr (out, errout), s1) \<Rightarrow>
          if out \<noteq> [] then
            (let pythonPath = (case split_nl (trim out) of [] \<Rightarrow> [] | l # ls \<Rightarrow> l) in
             case testPythonPath w pythonPath s1 of
               (True, s2) \<Rightarrow> (Inr pythonPath, s2)
             | (False, s2) \<Rightarrow> probePath w cmds s2)
          else probePath w cmds s1
      | (Inl e, s1) \<Rightarrow> probePath w cmds s1)"

definition pythonCommands :: "world \<Rightarrow> string list" where
  "pythonCommands w =
     (if win32 w then [''python.exe'', ''python3.exe'', ''py.exe''] else [''python3'', ''python''])"

definition getPythonPath :: "world \<Rightarrow> state \<Rightarrow> (error + string) \<times> state" where
  "getPythonPath w s =
     (if pythonExtension w then
        (case defaultInterpreterPath w of
           Some pythonPath \<Rightarrow>
             if pythonPath \<noteq> [] then
               (case testPythonPath w pythonPath s of
                  (True, s1) \<Rightarrow> (Inr pythonPath, s1)
                | (False, s1) \<Rightarrow> probePath w (pythonCommands w) s1)
             else probePath w (pythonCommands w) s
         | None \<Rightarrow> probePath w (pythonCommands w) s)
      else probePath w (pythonCommands w) s)"

definition binDir :: "world \<Rightarrow> string" where
  "binDir w = (if win32 w then ''Scripts'' else ''bin'')"

text \<open>The path \<^verbatim>\<open>executeCommand\<close> hands to \<^verbatim>\<open>cp.spawn\<close>.\<close>

definition cmdPath :: "world \<Rightarrow> string \<Rightarrow> string option \<Rightarrow> string" where
  "cmdPath w cmd env =
     (case env of
        None \<Rightarrow> cmd
      | Some p \<Rightarrow>
          if p = [] then cmd
          else (let c = path_join w [p, binDir w, cmd] in
                if win32 w \<and> \<not> endsWith c ''.exe'' then c @ ''.exe'' else c))"

definition executeCommand ::
  "world \<Rightarrow> string \<Rightarrow> string list \<Rightarrow> string option \<Rightarrow> state \<Rightarrow> (error + string) \<times> state" where
  "executeCommand w cmd as env s =
     (let c = cmdPath w cmd env;
          s' = s\<lparr>spawned := spawned s @ [Spawn c as]\<rparr> in
      case spawn w (spawned s) c as of
        Close code out errout \<Rightarrow>
          if code = Some 0 then (Inr out, s') else (Inl (CommandFailed code errout), s')
      | SpawnFailure e \<Rightarrow> (Inl (SpawnError e), s'))"

subsection \<open>Locating pip\<close>

definition pipPath :: "world \<Rightarrow> string \<Rightarrow> string" where
  "pipPath w envRoot = path_join w [envRoot, binDir w, if win32 w then ''pip.exe'' else ''pip'']"

text \<open>
  The end of \<^verbatim>\<open>getPipCommand\<close>, reached with no selected environment and when the
  environment's pip is not executable: \<^verbatim>\<open>python -m pip\<close> with the interpreter found.
\<close>

definition pythonModulePip :: "world \<Rightarrow> state \<Rightarrow> (error + PipCommand) \<times> state" where
  "pythonModulePip w s =
     (case getPythonPath w s of
        (Inl e, s') \<Rightarrow> (Inl e, s')
      | (Inr pythonPath, s') \<Rightarrow>
          (Inr \<lparr>command = pythonPath, args = [''-m'', ''pip''], envPath = None\<rparr>, s'))"

definition getPipCommand :: "world \<Rightarrow> state \<Rightarrow> (error + PipCommand) \<times> state" where
  "getPipCommand w s =
     (case currentEnv s of
        Some r \<Rightarrow>
          if access_X_OK w (spawned s) (pipPath w (path (heap s r)))
          then (Inr \<lparr>command = pipPath w (path (heap s r)), args = [], envPath = None\<rparr>, s)
          else pythonModulePip w s
      | None \<Rightarrow> pythonModulePip w s)"

subsection \<open>Updating packages\<close>

text \<open>The \<^verbatim>\<open>for (const pkgName of packageNames)\<close> loop of the fallback.\<close>

fun updateEach ::
  "world \<Rightarrow> PipCommand \<Rightarrow> string list \<Rightarrow> string list \<Rightarrow> string list \<Rightarrow> state
     \<Rightarrow> string list \<times> string list \<times> state" where
  "updateEach w pc [] succ fl s = (succ, fl, s)"
| "updateEach w pc (pkgName # rest) succ fl s =
     (case executeCommand w (command pc) (args pc @ [''install'', ''--upgrade'', pkgName])
             (envPath pc) s of
        (Inr out, s') \<Rightarrow> updateEach w pc rest (succ @ [pkgName]) fl s'
      | (Inl e, s') \<Rightarrow> updateEach w pc rest succ (fl @ [pkgName]) s')"

definition updatePackages ::
  "world \<Rightarrow> string list \<Rightarrow> state \<Rightarrow> (error + UpdateResult) \<times> state" where
  "updatePackages w packageNames s =
     (if length packageNames = 0 then (Inr \<lparr>success = [], failed = []\<rparr>, s)
      else
        (let succ = []; fl = [] in
         case getPipCommand w s of
           (Inl e, s1) \<Rightarrow>
             (Inr \<lparr>success = succ,
                   failed = fl @ filter (\<lambda>pkg. pkg \<notin> set succ) packageNames\<rparr>, s1)
         | (Inr pc, s1) \<Rightarrow>
             (case executeCommand w (command pc)
                     (args pc @ [''install'', ''--upgrade''] @ packageNames) (envPath pc) s1 of
                (Inr out, s2) \<Rightarrow> (Inr \<lparr>success = packageNames, failed = []\<rparr>, s2)
              | (Inl batchError, s2) \<Rightarrow>
                  (case updateEach w pc packageNames succ fl s2 of
                     (succ', fl', s3) \<Rightarrow> (Inr \<lparr>success = succ', failed = fl'\<rparr>, s3)))))"

subsection \<open>Listing installed packages\<close>

text \<open>
  \<^verbatim>\<open>outdatedPackages.forEach(pkg => outdatedMap.set(pkg.name, pkg.latest_version))\<close>:
  a later entry for a name replaces an earlier one.
\<close>

definition outdatedMap :: "outdated list \<Rightarrow> (string \<rightharpoonup> string)" where
  "outdatedMap outdatedPackages =
     foldl (\<lambda>m pkg. m(outdated_name pkg \<mapsto> latest_version pkg)) Map.empty outdatedPackages"

text \<open>The text after \<^verbatim>\<open>Summary:\<close> on the first such line of \<^verbatim>\<open>pip show\<close>.\<close>

definition summaryOf :: "string \<Rightarrow> string" where
  "summaryOf showOutput =
     (case List.find (\<lambda>line. startsWith line ''Summary:'') (split_nl showOutput) of
        None \<Rightarrow> []
      | Some line \<Rightarrow> trim (drop (length ''Summary:'') line))"

text \<open>\<^verbatim>\<open>!!latest\<close> for a string or \<^verbatim>\<open>undefined\<close>: the empty string is falsy.\<close>

definition truthy :: "string option \<Rightarrow> bool" where
  "truthy v = (case v of None \<Rightarrow> False | Some x \<Rightarrow> x \<noteq> [])"

text \<open>The \<^verbatim>\<open>for (const pkg of packagesData)\<close> loop, pushing to \<^verbatim>\<open>packages_with_details\<close>.\<close>

fun packages_with_details ::
  "world \<Rightarrow> PipCommand \<Rightarrow> (string \<rightharpoonup> string) \<Rightarrow> listed list \<Rightarrow> PackageInfo list \<Rightarrow> state
     \<Rightarrow> PackageInfo list \<times> state" where
  "packages_with_details w pc m [] acc s = (acc, s)"
| "packages_with_details w pc m (pkg # rest) acc s =
     (let l = m (listed_name pkg) in
      case executeCommand w (command pc) (args pc @ [''show'', listed_name pkg]) (envPath pc) s of
        (r, s') \<Rightarrow>
          (let d = (case r of Inr showOutput \<Rightarrow> summaryOf showOutput | Inl e \<Rightarrow> []) in
           packages_with_details w pc m rest
             (acc @ [\<lparr>PackageInfo.name = listed_name pkg, version = listed_version pkg,
                       latest = l, description = Some d, hasUpdate = Some (truthy l)\<rparr>]) s'))"

text \<open>The body of the \<^verbatim>\<open>try\<close> block of \<^verbatim>\<open>getInstalledPackages\<close>.\<close>

definition getInstalledPackages_try ::
  "world \<Rightarrow> state \<Rightarrow> (error + PackageInfo list) \<times> state" where
  "getInstalledPackages_try w s =
     (case getPipCommand w s of
        (Inl e, s1) \<Rightarrow> (Inl e, s1)
      | (Inr pc, s1) \<Rightarrow>
     (case executeCommand w (command pc) (args pc @ [''list'', ''--format=json'']) (envPath pc) s1 of
        (Inl e, s2) \<Rightarrow> (Inl e, s2)
      | (Inr output, s2) \<Rightarrow>
     (case JSON_parse_listed w output of
        Inl e \<Rightarrow> (Inl e, s2)
      | Inr packagesData \<Rightarrow>
     (case executeCommand w (command pc) (args pc @ [''list'', ''--outdated'', ''--format=json''])
             (envPath pc) s2 of
        (r, s3) \<Rightarrow>
     (let outdatedOutput = (case r of Inr out \<Rightarrow> out | Inl e \<Rightarrow> ''[]'') in
      case JSON_parse_outdated w outdatedOutput of
        Inl e \<Rightarrow> (Inl e, s3)
      | Inr outdatedPackages \<Rightarrow>
     (case packages_with_details w pc (outdatedMap outdatedPackages) packagesData [] s3 of
        (ps, s4) \<Rightarrow> (Inr ps, s4)))))))"

text \<open>The \<^verbatim>\<open>catch\<close> block: a notification, and the empty list as the result.\<close>

definition getInstalledPackages ::
  "world \<Rightarrow> state \<Rightarrow> (error + PackageInfo list) \<times> state" where
  "getInstalledPackages w s =
     (case getInstalledPackages_try w s of
        (Inl e, s') \<Rightarrow>
          (Inr [], s'\<lparr>notifications := notifications s' @
             [''Failed to get installed packages. See output channel for details.'']\<rparr>)
      | (Inr ps, s') \<Rightarrow> (Inr ps, s'))"

subsection \<open>Enumerating virtual environments\<close>

definition envFolders :: "string list" where
  "envFolders = [''.venv'', ''venv'', ''env'', ''.env'', ''.virtualenv'', ''virtualenv'']"

definition pythonExePath :: "world \<Rightarrow> string \<Rightarrow> string" where
  "pythonExePath w envRoot =
     path_join w [envRoot, if win32 w then ''Scripts/python.exe'' else ''bin/python'']"

text \<open>The inner loop \<^verbatim>\<open>for (const envName of envFolders)\<close>.\<close>

fun scanNames ::
  "world \<Rightarrow> state \<Rightarrow> string \<Rightarrow> string list \<Rightarrow> EnvironmentInfo list \<Rightarrow> EnvironmentInfo list" where
  "scanNames w s folder [] envs = envs"
| "scanNames w s folder (envName # rest) envs =
     (let p = path_join w [folder, envName] in
      scanNames w s folder rest
        (case stat w (spawned s) p of
           None \<Rightarrow> envs
         | Some st \<Rightarrow>
             if st = IsDirectory then
               (case stat w (spawned s) (pythonExePath w p) of
                  None \<Rightarrow> envs
                | Some pst \<Rightarrow>
                    if pst = IsFile then
                      envs @ [\<lparr>name = envName, path = p,
                               isActive = (case currentEnv s of
                                             None \<Rightarrow> False
                                           | Some r \<Rightarrow> path (heap s r) = p)\<rparr>]
                    else envs)
             else envs))"

text \<open>The outer loop \<^verbatim>\<open>for (const folder of workspaceFolders)\<close>.\<close>

fun scanFolders ::
  "world \<Rightarrow> state \<Rightarrow> string list \<Rightarrow> EnvironmentInfo list \<Rightarrow> EnvironmentInfo list" where
  "scanFolders w s [] envs = envs"
| "scanFolders w s (folder # rest) envs =
     scanFolders w s rest (scanNames w s folder envFolders envs)"

definition getVirtualEnvironments ::
  "world \<Rightarrow> state \<Rightarrow> (error + EnvironmentInfo list) \<times> state" where
  "getVirtualEnvironments w s =
     (case workspaceFolders w of
        None \<Rightarrow> (Inr [], s)
      | Some folders \<Rightarrow> (Inr (scanFolders w s folders []), s))"

section \<open>PipingEnvironmentProvider\<close>

text \<open>\<^verbatim>\<open>this._environments.forEach(env => { env.isActive = false; })\<close>\<close>

definition clearActive :: "(ref \<Rightarrow> EnvironmentInfo) \<Rightarrow> ref list \<Rightarrow> (ref \<Rightarrow> EnvironmentInfo)" where
  "clearActive h rs = foldl (\<lambda>h' r. h'(r := (h' r)\<lparr>isActive := False\<rparr>)) h rs"

text \<open>\<^verbatim>\<open>refresh()\<close> fires the tree-data-change event.\<close>

definition refresh :: "state \<Rightarrow> state" where
  "refresh s = s\<lparr>fired := fired s + 1\<rparr>"

definition setActiveEnvironment :: "string \<Rightarrow> state \<Rightarrow> state" where
  "setActiveEnvironment envName s =
     (let s1 = s\<lparr>heap := clearActive (heap s) (environments s)\<rparr> in
      refresh
        (case List.find (\<lambda>r. name (heap s1 r) = envName) (environments s1) of
           Some r \<Rightarrow> s1\<lparr>heap := (heap s1)(r := (heap s1 r)\<lparr>isActive := True\<rparr>),
                       currentEnv := Some r\<rparr>
         | None \<Rightarrow> s1))"

section \<open>Auxiliary notions for the statements\<close>

text \<open>
  The state in which the fallback loop of \<^verbatim>\<open>updatePackages\<close> starts the upgrade of
  the name at index \<open>i\<close>, when the loop was entered in state \<open>s\<close>: the upgrades of the
  names before it have been started, one process each.
\<close>

definition beforeUpgrade :: "world \<Rightarrow> PipCommand \<Rightarrow> string list \<Rightarrow> state \<Rightarrow> nat \<Rightarrow> state" where
  "beforeUpgrade w pc names s i =
     s\<lparr>spawned := spawned s @
          map (\<lambda>n. Spawn (cmdPath w (command pc) (envPath pc))
                        (args pc @ [''install'', ''--upgrade'', n])) (take i names)\<rparr>"

text \<open>Whether the individual upgrade of the name at index \<open>i\<close> resolves.\<close>

definition upgradeSucceeds :: "world \<Rightarrow> PipCommand \<Rightarrow> string list \<Rightarrow> state \<Rightarrow> nat \<Rightarrow> bool" where
  "upgradeSucceeds w pc names s i =
     (case fst (executeCommand w (command pc) (args pc @ [''install'', ''--upgrade'', names ! i])
                  (envPath pc) (beforeUpgrade w pc names s i)) of
        Inr out \<Rightarrow> True
      | Inl e \<Rightarrow> False)"

text \<open>
  The state in which the loop of \<^verbatim>\<open>getInstalledPackages\<close> starts \<^verbatim>\<open>pip show\<close> for
  the package at index \<open>i\<close>, when the loop was entered in state \<open>s\<close>, and the
  description that package gets: the summary of the output, empty when the process fails.
\<close>

definition beforeShow :: "world \<Rightarrow> PipCommand \<Rightarrow> listed list \<Rightarrow> state \<Rightarrow> nat \<Rightarrow> state" where
  "beforeShow w pc pkgs s i =
     s\<lparr>spawned := spawned s @
          map (\<lambda>d. Spawn (cmdPath w (command pc) (envPath pc))
                        (args pc @ [''show'', listed_name d])) (take i pkgs)\<rparr>"

definition describedAs :: "world \<Rightarrow> PipCommand \<Rightarrow> listed list \<Rightarrow> state \<Rightarrow> nat \<Rightarrow> string" where
  "describedAs w pc pkgs s i =
     (case fst (executeCommand w (command pc) (args pc @ [''show'', listed_name (pkgs ! i)])
                  (envPath pc) (beforeShow w pc pkgs s i)) of
        Inr showOutput \<Rightarrow> summaryOf showOutput
      | Inl e \<Rightarrow> [])"

text \<open>A record of the enumeration is valid for a list of workspace folders.\<close>

definition validEnv :: "world \<Rightarrow> state \<Rightarrow> string list \<Rightarrow> EnvironmentInfo \<Rightarrow> bool" where
  "validEnv w s folders e =
     (\<exists>folder\<in>set folders. name e \<in> set envFolders \<and> path e = path_join w [folder, name e]
        \<and> stat w (spawned s) (path e) = Some IsDirectory
        \<and> stat w (spawned s) (pythonExePath w (path e)) = Some IsFile)"

section \<open>Sample hosts and states\<close>

text \<open>
  Concrete hosts on which the statements below are evaluated. All are POSIX hosts where
  \<^verbatim>\<open>which python3\<close> prints \<^verbatim>\<open>/usr/bin/python3\<close>; they differ in what pip answers.
  \<open>posix_join\<close> joins with a slash (the sample paths need no normalisation).
\<close>

definition posix_join :: "string list \<Rightarrow> string" where
  "posix_join ps = (case ps of [] \<Rightarrow> ''.'' | p # qs \<Rightarrow> foldl (\<lambda>a b. a @ ''/'' @ b) p qs)"

definition json_requests :: string where
  \<open>json_requests = ''[{"name": "requests", "version": "2.28.0"}]''\<close>

definition json_requests_outdated :: string where
  \<open>json_requests_outdated =
     ''[{"name": "requests", "version": "2.28.0", "latest_version": "2.31.0"}]''\<close>

definition json_requests_blank :: string where
  \<open>json_requests_blank =
     ''[{"name": "requests", "version": "2.28.0", "latest_version": ""}]''\<close>

definition json_requests_same :: string where
  \<open>json_requests_same =
     ''[{"name": "requests", "version": "2.28.0", "latest_version": "2.28.0"}]''\<close>

definition parse_listed_sample :: "string \<Rightarrow> error + listed list" where
  "parse_listed_sample t =
     (if t = json_requests then Inr [Listed ''requests'' ''2.28.0''] else Inl SyntaxError)"

definition parse_outdated_sample :: "string \<Rightarrow> error + outdated list" where
  "parse_outdated_sample t =
     (if t = ''[]'' then Inr []
      else if t = json_requests_outdated then Inr [Outdated ''requests'' ''2.28.0'' ''2.31.0'']
      else if t = json_requests_blank then Inr [Outdated ''requests'' ''2.28.0'' []]
      else if t = json_requests_same then Inr [Outdated ''requests'' ''2.28.0'' ''2.28.0'']
      else Inl SyntaxError)"

definition python3_on_path :: "history \<Rightarrow> string \<Rightarrow> exec_result" where
  "python3_on_path h c =
     (if c = ''which python3'' then ExecResult None (''/usr/bin/python3'' @ [CHR 0x0A]) []
      else if c = [CHR 0x22] @ ''/usr/bin/python3'' @ [CHR 0x22] @ '' --version''
        then ExecResult None (''Python 3.11.4'' @ [CHR 0x0A]) []
      else ExecResult (Some ''Command failed'') [] ''not found'')"

text \<open>A host whose pip answers by \<open>pip\<close>, a function of the arguments after \<^verbatim>\<open>-m pip\<close>.\<close>

definition pip_host :: "(string list \<Rightarrow> spawn_result) \<Rightarrow> world" where
  "pip_host pip =
     \<lparr>win32 = False,
      path_join = posix_join,
      spawn = (\<lambda>h c as. if c = ''/usr/bin/python3'' \<and> take 2 as = [''-m'', ''pip'']
                         then pip (drop 2 as)
                         else Close (Some 127) [] ''command not found''),
      exec = python3_on_path,
      access_X_OK = (\<lambda>h p. False),
      stat = (\<lambda>h p. None),
      pythonExtension = False,
      defaultInterpreterPath = None,
      workspaceFolders = None,
      JSON_parse_listed = parse_listed_sample,
      JSON_parse_outdated = parse_outdated_sample\<rparr>"

definition pip_fails :: "string list \<Rightarrow> spawn_result" where
  "pip_fails as = Close (Some 1) [] ''ERROR''"

text \<open>pip with \<^verbatim>\<open>requests 2.28.0\<close> installed; \<open>outd\<close> is how the outdated query ends.\<close>

definition pip_requests :: "spawn_result \<Rightarrow> string list \<Rightarrow> spawn_result" where
  "pip_requests outd as =
     (if as = [''list'', ''--format=json''] then Close (Some 0) json_requests []
      else if as = [''list'', ''--outdated'', ''--format=json''] then outd
      else if as = [''show'', ''requests'']
        then Close (Some 0)
               (''Name: requests'' @ [CHR 0x0A] @ ''Summary: Python HTTP for Humans.'' @ [CHR 0x0A]) []
      else Close (Some 1) [] ''ERROR'')"

definition w_requests :: world where
  "w_requests = pip_host (pip_requests (Close (Some 0) json_requests_outdated []))"

definition w_blank_latest :: world where
  "w_blank_latest = pip_host (pip_requests (Close (Some 0) json_requests_blank []))"

definition w_same_latest :: world where
  "w_same_latest = pip_host (pip_requests (Close (Some 0) json_requests_same []))"

definition w_outdated_fails :: world where
  "w_outdated_fails = pip_host (pip_requests (Close (Some 1) [] ''ERROR: network unreachable''))"

definition w_list_fails :: world where
  "w_list_fails = pip_host pip_fails"

definition w_list_garbage :: world where
  "w_list_garbage = pip_host (\<lambda>as. Close (Some 0) ''WARNING: not json'' [])"

definition w_batch_ok :: world where
  "w_batch_ok =
     pip_host (\<lambda>as. if as = [''install'', ''--upgrade'', ''a'', ''b'']
                     then Close (Some 0) ''Successfully installed a b'' [] else pip_fails as)"

definition w_a_only :: world where
  "w_a_only =
     pip_host (\<lambda>as. if as = [''install'', ''--upgrade'', ''a'']
                     then Close (Some 0) ''Successfully installed a'' [] else pip_fails as)"

definition w_no_python :: world where
  "w_no_python =
     (pip_host pip_fails)\<lparr>exec := (\<lambda>h c. ExecResult (Some ''Command failed'') [] ''not found'')\<rparr>"

definition w_workspace :: world where
  "w_workspace =
     (pip_host pip_fails)
       \<lparr>stat := (\<lambda>h p. if p = ''/proj/.venv'' \<or> p = ''/proj/venv'' then Some IsDirectory
                        else if p = ''/proj/.venv/bin/python'' then Some IsFile
                        else None),
        workspaceFolders := Some [''/proj'']\<rparr>"

definition w_venv_pip :: world where
  "w_venv_pip = (pip_host pip_fails)\<lparr>access_X_OK := (\<lambda>h p. p = ''/proj/venv/bin/pip'')\<rparr>"

definition idle :: state where
  "idle = \<lparr>heap = (\<lambda>r. \<lparr>name = [], path = [], isActive = False\<rparr>), currentEnv = None,
           environments = [], spawned = [], notifications = [], fired = 0\<rparr>"

text \<open>One environment held by the provider, active and selected in the executor.\<close>

definition venv_active :: state where
  "venv_active =
     idle\<lparr>heap := (heap idle)(0 := \<lparr>name = ''venv'', path = ''/proj/venv'', isActive = True\<rparr>),
          currentEnv := Some 0,
          environments := [0]\<rparr>"

section \<open>Facts about the model\<close>

lemmas model_defs =
  getPipCommand_def pythonModulePip_def getPythonPath_def pythonCommands_def
  executeSystemCommand_def testPythonPath_def executeCommand_def cmdPath_def pipPath_def
  binDir_def trim_def isSpace_def includes_str_def toLowerCase_def startsWith_def endsWith_def
  summaryOf_def truthy_def outdatedMap_def getInstalledPackages_def getInstalledPackages_try_def
  updatePackages_def getVirtualEnvironments_def envFolders_def pythonExePath_def
  setActiveEnvironment_def clearActive_def refresh_def beforeUpgrade_def upgradeSucceeds_def
  beforeShow_def describedAs_def Let_def

lemmas sample_defs =
  posix_join_def json_requests_def json_requests_outdated_def json_requests_blank_def
  json_requests_same_def parse_listed_sample_def parse_outdated_sample_def python3_on_path_def
  pip_host_def pip_fails_def pip_requests_def w_requests_def w_blank_latest_def w_same_latest_def
  w_outdated_fails_def w_list_fails_def w_list_garbage_def w_batch_ok_def w_a_only_def
  w_no_python_def w_workspace_def w_venv_pip_def idle_def venv_active_def

subsection \<open>Processes\<close>

lemma executeCommand_snd:
  "snd (executeCommand w c a e s) = s\<lparr>spawned := spawned s @ [Spawn (cmdPath w c e) a]\<rparr>"
  by (simp add: executeCommand_def Let_def split: spawn_result.splits)

lemma executeCommand_notifications:
  "executeCommand w c a e s = (r, s') \<Longrightarrow> notifications s' = notifications s"
  using executeCommand_snd[of w c a e s] by simp

lemma probePath_error: "fst (probePath w cmds s) = Inl e \<Longrightarrow> e = NoPythonFound"
  by (induction w cmds s rule: probePath.induct)
     (auto simp add: Let_def split: prod.splits sum.splits if_splits bool.splits)

lemma getPythonPath_error: "fst (getPythonPath w s) = Inl e \<Longrightarrow> e = NoPythonFound"
  by (auto simp add: getPythonPath_def split: if_splits option.splits prod.splits bool.splits
       dest: probePath_error)






subsection \<open>The fallback loop of the batch update\<close>

lemma upt_0_Suc: "[0..<Suc n] = 0 # map Suc [0..<n]"
  by (simp add: upt_conv_Cons map_Suc_upt del: upt_Suc)

lemma filter_map_Suc: "filter P (map Suc xs) = map Suc (filter (\<lambda>i. P (Suc i)) xs)"
  by (induction xs) auto

lemma beforeUpgrade_0: "beforeUpgrade w pc names s 0 = s"
  by (simp add: beforeUpgrade_def)

lemma beforeUpgrade_Suc:
  "beforeUpgrade w pc (n # names) s (Suc i) =
     beforeUpgrade w pc names
       (snd (executeCommand w (command pc) (args pc @ [''install'', ''--upgrade'', n]) (envPath pc) s)) i"
  by (simp add: beforeUpgrade_def executeCommand_snd)

lemma upgradeSucceeds_Suc:
  "upgradeSucceeds w pc (n # names) s (Suc i) =
     upgradeSucceeds w pc names
       (snd (executeCommand w (command pc) (args pc @ [''install'', ''--upgrade'', n]) (envPath pc) s)) i"
  by (simp add: upgradeSucceeds_def beforeUpgrade_Suc)

lemma updateEach_char:
  "updateEach w pc names succ fl s =
     (succ @ map ((!) names) (filter (upgradeSucceeds w pc names s) [0..<length names]),
      fl @ map ((!) names) (filter (\<lambda>i. \<not> upgradeSucceeds w pc names s i) [0..<length names]),
      beforeUpgrade w pc names s (length names))"
proof (induction names arbitrary: succ fl s)
  case Nil
  then show ?case by (simp add: beforeUpgrade_def)
next
  case (Cons n names)
  let ?r = "executeCommand w (command pc) (args pc @ [''install'', ''--upgrade'', n]) (envPath pc) s"
  obtain r s' where r: "?r = (r, s')" by (cases ?r)
  have ok0: "upgradeSucceeds w pc (n # names) s 0 = (\<exists>out. r = Inr out)"
    using r by (cases r) (simp_all add: upgradeSucceeds_def beforeUpgrade_0)
  show ?case
  proof (cases r)
    case (Inl e)
    then show ?thesis
      using ok0 Cons.IH[of succ "fl @ [n]" s']
      by (simp add: r upt_0_Suc filter_map_Suc upgradeSucceeds_Suc beforeUpgrade_Suc o_def del: upt_Suc)
  next
    case (Inr out)
    then show ?thesis
      using ok0 Cons.IH[of "succ @ [n]" fl s']
      by (simp add: r upt_0_Suc filter_map_Suc upgradeSucceeds_Suc beforeUpgrade_Suc o_def del: upt_Suc)
  qed
qed

subsection \<open>The merge of installed and outdated packages\<close>

lemma outdatedMap_foldl:
  "foldl (\<lambda>m pkg. m(outdated_name pkg \<mapsto> latest_version pkg)) m0 xs
     = m0 ++ map_of (rev (map (\<lambda>x. (outdated_name x, latest_version x)) xs))"
  by (induction xs arbitrary: m0) (simp_all add: map_add_upd_left)

lemma outdatedMap_map_of:
  "outdatedMap xs = map_of (rev (map (\<lambda>x. (outdated_name x, latest_version x)) xs))"
  by (simp add: outdatedMap_def outdatedMap_foldl)

lemma dom_outdatedMap: "dom (outdatedMap xs) = outdated_name ` set xs"
  by (simp add: outdatedMap_map_of dom_map_of_conv_image_fst image_image)

lemma packages_with_details_fields:
  "map (\<lambda>p. (PackageInfo.name p, version p, latest p, hasUpdate p))
       (fst (packages_with_details w pc m pkgs acc s))
     = map (\<lambda>p. (PackageInfo.name p, version p, latest p, hasUpdate p)) acc
       @ map (\<lambda>d. (listed_name d, listed_version d, m (listed_name d),
                   Some (truthy (m (listed_name d))))) pkgs"
  by (induction pkgs arbitrary: acc s) (simp_all add: Let_def split: prod.splits)

lemma packages_with_details_description:
  "list_all (\<lambda>p. description p \<noteq> None) acc \<Longrightarrow>
   list_all (\<lambda>p. description p \<noteq> None) (fst (packages_with_details w pc m pkgs acc s))"
  by (induction pkgs arbitrary: acc s) (simp_all add: Let_def split: prod.splits)

lemma packages_with_details_truthy:
  "list_all (\<lambda>p. hasUpdate p = Some (truthy (latest p))) acc \<Longrightarrow>
   list_all (\<lambda>p. hasUpdate p = Some (truthy (latest p)))
     (fst (packages_with_details w pc m pkgs acc s))"
  by (induction pkgs arbitrary: acc s) (simp_all add: Let_def split: prod.splits)

lemma packages_with_details_truthy_result:
  assumes "packages_with_details w pc m pkgs [] s = (ps, s')"
  shows "list_all (\<lambda>p. hasUpdate p = Some (truthy (latest p))) ps"
proof -
  have "list_all (\<lambda>p. hasUpdate p = Some (truthy (latest p)))
          (fst (packages_with_details w pc m pkgs [] s))"
    by (rule packages_with_details_truthy) simp
  with assms show ?thesis by simp
qed

lemma packages_with_details_notifications:
  "notifications (snd (packages_with_details w pc m pkgs acc s)) = notifications s"
  by (induction pkgs arbitrary: acc s)
     (auto simp add: Let_def split: prod.splits dest: executeCommand_notifications)

lemma getInstalledPackages_try_fields:
  assumes "getPipCommand w s = (Inr pc, s1)"
    and "executeCommand w (command pc) (args pc @ [''list'', ''--format=json'']) (envPath pc) s1
           = (Inr output, s2)"
    and "JSON_parse_listed w output = Inr packagesData"
    and "executeCommand w (command pc) (args pc @ [''list'', ''--outdated'', ''--format=json''])
           (envPath pc) s2 = (r, s3)"
    and "JSON_parse_outdated w (case r of Inr out \<Rightarrow> out | Inl e \<Rightarrow> ''[]'') = Inr outdatedPackages"
  shows "\<exists>ps. getInstalledPackages w s
            = (Inr ps, snd (packages_with_details w pc (outdatedMap outdatedPackages) packagesData [] s3))
          \<and> list_all (\<lambda>p. description p \<noteq> None) ps
          \<and> map (\<lambda>p. (PackageInfo.name p, version p, latest p, hasUpdate p)) ps
              = map (\<lambda>d. (listed_name d, listed_version d,
                          outdatedMap outdatedPackages (listed_name d),
                          Some (truthy (outdatedMap outdatedPackages (listed_name d))))) packagesData"
proof -
  let ?r = "packages_with_details w pc (outdatedMap outdatedPackages) packagesData [] s3"
  have "getInstalledPackages w s = (Inr (fst ?r), snd ?r)"
    using assms
    by (simp add: getInstalledPackages_def getInstalledPackages_try_def Let_def split: prod.splits)
  moreover have "list_all (\<lambda>p. description p \<noteq> None) (fst ?r)"
    by (rule packages_with_details_description) simp
  ultimately show ?thesis
    using packages_with_details_fields[of w pc "outdatedMap outdatedPackages" packagesData "[]" s3]
    by simp
qed

lemma map_fields_all:
  assumes "map (\<lambda>p. (PackageInfo.name p, version p, latest p, hasUpdate p)) ps
              = map (\<lambda>d. (listed_name d, listed_version d, m (listed_name d),
                          Some (truthy (m (listed_name d))))) ds"
  shows "map PackageInfo.name ps = map listed_name ds
       \<and> map version ps = map listed_version ds
       \<and> list_all (\<lambda>p. latest p = m (PackageInfo.name p)) ps
       \<and> list_all (\<lambda>p. hasUpdate p = Some (truthy (latest p))) ps"
  using assms
proof (induction ps arbitrary: ds)
  case Nil
  then show ?case by simp
next
  case (Cons p ps)
  then obtain d ds' where ds: "ds = d # ds'" by (cases ds) auto
  with Cons.prems Cons.IH[of ds'] show ?case by simp
qed

lemma beforeShow_0: "beforeShow w pc pkgs s 0 = s"
  by (simp add: beforeShow_def)

lemma beforeShow_Suc:
  "beforeShow w pc (d # pkgs) s (Suc i) =
     beforeShow w pc pkgs
       (snd (executeCommand w (command pc) (args pc @ [''show'', listed_name d]) (envPath pc) s)) i"
  by (simp add: beforeShow_def executeCommand_snd)

lemma describedAs_Suc:
  "describedAs w pc (d # pkgs) s (Suc i) =
     describedAs w pc pkgs
       (snd (executeCommand w (command pc) (args pc @ [''show'', listed_name d]) (envPath pc) s)) i"
  by (simp add: describedAs_def beforeShow_Suc)

lemma packages_with_details_descriptions:
  "map description (fst (packages_with_details w pc m pkgs acc s))
     = map description acc @ map (\<lambda>i. Some (describedAs w pc pkgs s i)) [0..<length pkgs]"
proof (induction pkgs arbitrary: acc s)
  case Nil
  then show ?case by simp
next
  case (Cons d pkgs)
  let ?r = "executeCommand w (command pc) (args pc @ [''show'', listed_name d]) (envPath pc) s"
  obtain r s' where r: "?r = (r, s')" by (cases ?r)
  have d0: "describedAs w pc (d # pkgs) s 0
              = (case r of Inr showOutput \<Rightarrow> summaryOf showOutput | Inl e \<Rightarrow> [])"
    using r by (simp add: describedAs_def beforeShow_0)
  show ?case
    using Cons.IH[of _ s']
    by (simp add: r d0 Let_def upt_0_Suc describedAs_Suc o_def del: upt_Suc)
qed

lemma getInstalledPackages_success:
  assumes "getPipCommand w s = (Inr pc, s1)"
    and "executeCommand w (command pc) (args pc @ [''list'', ''--format=json'']) (envPath pc) s1
           = (Inr output, s2)"
    and "JSON_parse_listed w output = Inr packagesData"
    and "executeCommand w (command pc) (args pc @ [''list'', ''--outdated'', ''--format=json''])
           (envPath pc) s2 = (r, s3)"
    and "JSON_parse_outdated w (case r of Inr out \<Rightarrow> out | Inl e \<Rightarrow> ''[]'') = Inr outdatedPackages"
  shows "fst (getInstalledPackages w s)
           = Inr (fst (packages_with_details w pc (outdatedMap outdatedPackages) packagesData [] s3))"
  using assms
  by (simp add: getInstalledPackages_def getInstalledPackages_try_def Let_def split: prod.splits)

subsection \<open>The scan for environments\<close>

lemma scanNames_valid:
  assumes "\<forall>e\<in>set envs. P e"
    and "\<And>envName. envName \<in> set names \<Longrightarrow>
           stat w (spawned s) (path_join w [folder, envName]) = Some IsDirectory \<Longrightarrow>
           stat w (spawned s) (pythonExePath w (path_join w [folder, envName])) = Some IsFile \<Longrightarrow>
           P \<lparr>name = envName, path = path_join w [folder, envName],
              isActive = (case currentEnv s of None \<Rightarrow> False
                          | Some r \<Rightarrow> path (heap s r) = path_join w [folder, envName])\<rparr>"
  shows "\<forall>e\<in>set (scanNames w s folder names envs). P e"
  using assms
proof (induction names arbitrary: envs)
  case Nil
  then show ?case by simp
next
  case (Cons a names)
  show ?case
    unfolding scanNames.simps Let_def
    apply (rule Cons.IH)
    using Cons.prems apply (auto split: option.splits)
    done
qed

lemma scanFolders_valid:
  assumes "\<forall>e\<in>set envs. validEnv w s (fs0 @ folders) e"
  shows "\<forall>e\<in>set (scanFolders w s folders envs). validEnv w s (fs0 @ folders) e"
  using assms
proof (induction folders arbitrary: envs fs0)
  case Nil
  then show ?case by simp
next
  case (Cons f folders)
  have "\<forall>e\<in>set (scanNames w s f envFolders envs). validEnv w s (fs0 @ f # folders) e"
    by (rule scanNames_valid) (use Cons.prems in \<open>auto simp add: validEnv_def\<close>)
  then have "\<forall>e\<in>set (scanFolders w s folders (scanNames w s f envFolders envs)).
               validEnv w s ((fs0 @ [f]) @ folders) e"
    using Cons.IH[of "scanNames w s f envFolders envs" "fs0 @ [f]"] by simp
  then show ?case by simp
qed

subsection \<open>The active flag\<close>









section \<open>Listing installed packages\<close>

text \<open>
  C1, as the code has it. When pip was located and the primary query
  \<^verbatim>\<open>list --format=json\<close> fails, or prints what \<^verbatim>\<open>JSON.parse\<close> throws on,
  \<^verbatim>\<open>getInstalledPackages\<close> does not reject: its \<^verbatim>\<open>catch\<close> block shows the error
  notification and the call resolves with the empty list.
\<close>

theorem getInstalledPackages_primary_failure:
  assumes "getPipCommand w s = (Inr pc, s1)"
    and "executeCommand w (command pc) (args pc @ [''list'', ''--format=json'']) (envPath pc) s1
           = (r, s2)"
    and "case r of Inl e \<Rightarrow> True | Inr output \<Rightarrow> isl (JSON_parse_listed w output)"
  shows "getInstalledPackages w s =
           (Inr [], s2\<lparr>notifications := notifications s2 @
              [''Failed to get installed packages. See output channel for details.'']\<rparr>)"
proof (cases r)
  case (Inl e)
  with assms show ?thesis
    by (simp add: getInstalledPackages_def getInstalledPackages_try_def)
next
  case (Inr out)
  with assms(3) obtain e where "JSON_parse_listed w out = Inl e"
    by (cases "JSON_parse_listed w out") auto
  with Inr assms(1,2) show ?thesis
    by (simp add: getInstalledPackages_def getInstalledPackages_try_def)
qed

theorem getInstalledPackages_primary_failure_witness:
  "fst (getPipCommand w_list_fails idle)
     = Inr \<lparr>command = ''/usr/bin/python3'', args = [''-m'', ''pip''], envPath = None\<rparr>
   \<and> fst (getInstalledPackages w_list_fails idle) = Inr []
   \<and> notifications (snd (getInstalledPackages w_list_fails idle))
       = [''Failed to get installed packages. See output channel for details.'']
   \<and> fst (getInstalledPackages w_list_garbage idle) = Inr []
   \<and> notifications (snd (getInstalledPackages w_list_garbage idle))
       = [''Failed to get installed packages. See output channel for details.'']"
proof -
  let ?pc = "\<lparr>command = ''/usr/bin/python3'', args = [''-m'', ''pip''], envPath = None\<rparr>"
  let ?run = "\<lambda>w. executeCommand w ''/usr/bin/python3'' [''-m'', ''pip'', ''list'', ''--format=json'']
                     None (snd (getPipCommand w idle))"
  have p1: "getPipCommand w_list_fails idle = (Inr ?pc, snd (getPipCommand w_list_fails idle))"
    by (simp add: prod_eq_iff model_defs sample_defs)
  have r1: "executeCommand w_list_fails (command ?pc) (args ?pc @ [''list'', ''--format=json''])
              (envPath ?pc) (snd (getPipCommand w_list_fails idle))
            = (Inl (CommandFailed (Some 1) ''ERROR''), snd (?run w_list_fails))"
    by (simp add: prod_eq_iff model_defs sample_defs)
  have p2: "getPipCommand w_list_garbage idle = (Inr ?pc, snd (getPipCommand w_list_garbage idle))"
    by (simp add: prod_eq_iff model_defs sample_defs)
  have r2: "executeCommand w_list_garbage (command ?pc) (args ?pc @ [''list'', ''--format=json''])
              (envPath ?pc) (snd (getPipCommand w_list_garbage idle))
            = (Inr ''WARNING: not json'', snd (?run w_list_garbage))"
    by (simp add: prod_eq_iff model_defs sample_defs)
  have j2: "case (Inr ''WARNING: not json'' :: error + string) of Inl e \<Rightarrow> True
            | Inr output \<Rightarrow> isl (JSON_parse_listed w_list_garbage output)"
    by (simp add: sample_defs)
  have n1: "notifications (snd (?run w_list_fails)) = []"
    by (simp add: model_defs sample_defs)
  have n2: "notifications (snd (?run w_list_garbage)) = []"
    by (simp add: model_defs sample_defs)
  have f1: "fst (getPipCommand w_list_fails idle) = Inr ?pc"
    using p1 by (rule arg_cong[where f=fst, THEN trans]) simp
  show ?thesis
    using f1 getInstalledPackages_primary_failure[OF p1 r1]
      getInstalledPackages_primary_failure[OF p2 r2 j2] n1 n2
    by simp
qed

text \<open>
  C1, as the claim states it, fails: on the host \<open>w_list_fails\<close> the primary query exits
  with code 1, the \<^verbatim>\<open>try\<close> block fails with that error, and the call still resolves,
  with the empty list.
\<close>

theorem getInstalledPackages_rejects_counterexample:
  "fst (executeCommand w_list_fails ''/usr/bin/python3'' [''-m'', ''pip'', ''list'', ''--format=json'']
          None (snd (getPipCommand w_list_fails idle)))
     = Inl (CommandFailed (Some 1) ''ERROR'')
   \<and> fst (getInstalledPackages_try w_list_fails idle) = Inl (CommandFailed (Some 1) ''ERROR'')
   \<and> fst (getInstalledPackages w_list_fails idle) = Inr []"
  by (simp add: model_defs sample_defs)

text \<open>
  C2, as the code has it. When both queries are read, the result has one record per
  installed package, in order, with its name and version. A record's \<open>latest\<close> is
  what the lookup map holds for its name, so it is set exactly when the name is a key of
  the map; \<open>hasUpdate\<close> is true exactly when the map holds a non-empty latest
  version for the name (\<^verbatim>\<open>!!latest\<close> is false for the empty string). The description
  of each record is the summary that \<^verbatim>\<open>pip show\<close> printed for the package, and empty
  when that process failed. For the installed list \<^verbatim>\<open>requests 2.28.0\<close> and the outdated
  list \<^verbatim>\<open>requests 2.28.0 -> 2.31.0\<close> the result is the single record of the claim,
  together with that description.
\<close>

theorem getInstalledPackages_merge:
  assumes "getPipCommand w s = (Inr pc, s1)"
    and "executeCommand w (command pc) (args pc @ [''list'', ''--format=json'']) (envPath pc) s1
           = (Inr output, s2)"
    and "JSON_parse_listed w output = Inr packagesData"
    and "executeCommand w (command pc) (args pc @ [''list'', ''--outdated'', ''--format=json''])
           (envPath pc) s2 = (r, s3)"
    and "JSON_parse_outdated w (case r of Inr out \<Rightarrow> out | Inl e \<Rightarrow> ''[]'') = Inr outdatedPackages"
  shows "\<exists>ps. fst (getInstalledPackages w s) = Inr ps
     \<and> map PackageInfo.name ps = map listed_name packagesData
     \<and> map version ps = map listed_version packagesData
     \<and> list_all (\<lambda>p. latest p = outdatedMap outdatedPackages (PackageInfo.name p)) ps
     \<and> list_all (\<lambda>p. (latest p \<noteq> None) = (PackageInfo.name p \<in> dom (outdatedMap outdatedPackages))) ps
     \<and> list_all (\<lambda>p. hasUpdate p =
                       Some (\<exists>v. outdatedMap outdatedPackages (PackageInfo.name p) = Some v \<and> v \<noteq> [])) ps
     \<and> map description ps
          = map (\<lambda>i. Some (describedAs w pc packagesData s3 i)) [0..<length packagesData]
     \<and> (packagesData = [Listed ''requests'' ''2.28.0''] \<and>
        outdatedPackages = [Outdated ''requests'' ''2.28.0'' ''2.31.0''] \<longrightarrow>
          ps = [\<lparr>PackageInfo.name = ''requests'', version = ''2.28.0'',
                 latest = Some ''2.31.0'',
                 description =
                   Some (case fst (executeCommand w (command pc) (args pc @ [''show'', ''requests''])
                                     (envPath pc) s3) of
                           Inr showOutput \<Rightarrow> summaryOf showOutput
                         | Inl e \<Rightarrow> []),
                 hasUpdate = Some True\<rparr>])"
proof -
  let ?m = "outdatedMap outdatedPackages"
  let ?ps = "fst (packages_with_details w pc ?m packagesData [] s3)"
  have r: "fst (getInstalledPackages w s) = Inr ?ps"
    using assms by (rule getInstalledPackages_success)
  have fl: "map (\<lambda>p. (PackageInfo.name p, version p, latest p, hasUpdate p)) ?ps
         = map (\<lambda>d. (listed_name d, listed_version d, ?m (listed_name d),
                     Some (truthy (?m (listed_name d))))) packagesData"
    using packages_with_details_fields[of w pc ?m packagesData "[]" s3] by simp
  have ds: "map description ?ps
          = map (\<lambda>i. Some (describedAs w pc packagesData s3 i)) [0..<length packagesData]"
    using packages_with_details_descriptions[of w pc ?m packagesData "[]" s3] by simp
  note f = map_fields_all[OF fl]
  have 1: "list_all (\<lambda>p. latest p = ?m (PackageInfo.name p)) ?ps" using f by simp
  have 2: "list_all (\<lambda>p. hasUpdate p = Some (truthy (latest p))) ?ps" using f by simp
  have 3: "list_all (\<lambda>p. (latest p \<noteq> None) = (PackageInfo.name p \<in> dom ?m)) ?ps"
    using 1 by (auto simp add: list_all_iff)
  have 4: "list_all (\<lambda>p. hasUpdate p =
                       Some (\<exists>v. ?m (PackageInfo.name p) = Some v \<and> v \<noteq> [])) ?ps"
    using 1 2 by (auto simp add: list_all_iff truthy_def split: option.splits)
  have 5: "packagesData = [Listed ''requests'' ''2.28.0''] \<and>
        outdatedPackages = [Outdated ''requests'' ''2.28.0'' ''2.31.0''] \<longrightarrow>
          ?ps = [\<lparr>PackageInfo.name = ''requests'', version = ''2.28.0'',
                 latest = Some ''2.31.0'',
                 description =
                   Some (case fst (executeCommand w (command pc) (args pc @ [''show'', ''requests''])
                                     (envPath pc) s3) of
                           Inr showOutput \<Rightarrow> summaryOf showOutput
                         | Inl e \<Rightarrow> []),
                 hasUpdate = Some True\<rparr>]"
    by (auto simp add: Let_def outdatedMap_def truthy_def split: prod.splits)
  show ?thesis using r f 1 3 4 ds 5 by blast
qed

theorem getInstalledPackages_merge_witness:
  "JSON_parse_listed w_requests json_requests = Inr [Listed ''requests'' ''2.28.0'']
   \<and> JSON_parse_outdated w_requests json_requests_outdated
       = Inr [Outdated ''requests'' ''2.28.0'' ''2.31.0'']
   \<and> fst (executeCommand w_requests ''/usr/bin/python3'' [''-m'', ''pip'', ''show'', ''requests'']
            None idle)
       = Inr (''Name: requests'' @ [CHR 0x0A] @ ''Summary: Python HTTP for Humans.'' @ [CHR 0x0A])
   \<and> fst (getInstalledPackages w_requests idle)
        = Inr [\<lparr>PackageInfo.name = ''requests'', version = ''2.28.0'',
                latest = Some ''2.31.0'', description = Some ''Python HTTP for Humans.'',
                hasUpdate = Some True\<rparr>]"
proof -
  let ?pc = "\<lparr>command = ''/usr/bin/python3'', args = [''-m'', ''pip''], envPath = None\<rparr>"
  let ?s1 = "snd (getPipCommand w_requests idle)"
  let ?l = "executeCommand w_requests ''/usr/bin/python3'' [''-m'', ''pip'', ''list'', ''--format=json'']
              None ?s1"
  let ?o = "executeCommand w_requests ''/usr/bin/python3''
              [''-m'', ''pip'', ''list'', ''--outdated'', ''--format=json''] None (snd ?l)"
  have p: "getPipCommand w_requests idle = (Inr ?pc, ?s1)"
    by (simp add: prod_eq_iff model_defs sample_defs)
  have l: "executeCommand w_requests (command ?pc) (args ?pc @ [''list'', ''--format=json''])
             (envPath ?pc) ?s1 = (Inr json_requests, snd ?l)"
    by (simp add: prod_eq_iff executeCommand_def cmdPath_def w_requests_def pip_host_def
          pip_requests_def Let_def)
  have jl: "JSON_parse_listed w_requests json_requests = Inr [Listed ''requests'' ''2.28.0'']"
    by (simp add: w_requests_def pip_host_def parse_listed_sample_def)
  have o: "executeCommand w_requests (command ?pc)
             (args ?pc @ [''list'', ''--outdated'', ''--format=json'']) (envPath ?pc) (snd ?l)
           = (Inr json_requests_outdated, snd ?o)"
    by (simp add: prod_eq_iff executeCommand_def cmdPath_def w_requests_def pip_host_def
          pip_requests_def Let_def)
  have jo: "JSON_parse_outdated w_requests json_requests_outdated
              = Inr [Outdated ''requests'' ''2.28.0'' ''2.31.0'']"
    by (simp add: sample_defs)
  have jo': "JSON_parse_outdated w_requests
               (case (Inr json_requests_outdated :: error + string) of Inr out \<Rightarrow> out | Inl e \<Rightarrow> ''[]'')
              = Inr [Outdated ''requests'' ''2.28.0'' ''2.31.0'']"
    using jo by simp
  have d: "(case fst (executeCommand w_requests (command ?pc) (args ?pc @ [''show'', ''requests''])
                        (envPath ?pc) (snd ?o)) of
              Inr showOutput \<Rightarrow> summaryOf showOutput
            | Inl e \<Rightarrow> []) = ''Python HTTP for Humans.''"
    by (simp add: model_defs sample_defs)
  have x: "fst (executeCommand w_requests ''/usr/bin/python3'' [''-m'', ''pip'', ''show'', ''requests'']
            None idle)
       = Inr (''Name: requests'' @ [CHR 0x0A] @ ''Summary: Python HTTP for Humans.'' @ [CHR 0x0A])"
    by (simp add: model_defs sample_defs)
  obtain ps where ps: "fst (getInstalledPackages w_requests idle) = Inr ps"
      "ps = [\<lparr>PackageInfo.name = ''requests'', version = ''2.28.0'',
                 latest = Some ''2.31.0'',
                 description =
                   Some (case fst (executeCommand w_requests (command ?pc)
                                     (args ?pc @ [''show'', ''requests'']) (envPath ?pc) (snd ?o)) of
                           Inr showOutput \<Rightarrow> summaryOf showOutput
                         | Inl e \<Rightarrow> []),
                 hasUpdate = Some True\<rparr>]"
    using getInstalledPackages_merge[OF p l jl o jo'] by blast
  have "fst (getInstalledPackages w_requests idle)
        = Inr [\<lparr>PackageInfo.name = ''requests'', version = ''2.28.0'',
                latest = Some ''2.31.0'', description = Some ''Python HTTP for Humans.'',
                hasUpdate = Some True\<rparr>]"
    unfolding ps(1) ps(2) d by simp
  then show ?thesis using jl jo x by simp
qed

text \<open>
  C2, as the claim states it, fails: when the outdated list reports the empty string as
  the latest version of \<^verbatim>\<open>requests\<close>, the name is a key of the lookup map and
  \<open>latest\<close> is set, yet \<open>hasUpdate\<close> is false.
\<close>

theorem hasUpdate_lookup_counterexample:
  "outdatedMap [Outdated ''requests'' ''2.28.0'' []] ''requests'' = Some []
   \<and> JSON_parse_outdated w_blank_latest json_requests_blank
       = Inr [Outdated ''requests'' ''2.28.0'' []]
   \<and> fst (getInstalledPackages w_blank_latest idle)
       = Inr [\<lparr>PackageInfo.name = ''requests'', version = ''2.28.0'', latest = Some [],
               description = Some ''Python HTTP for Humans.'', hasUpdate = Some False\<rparr>]"
  by (simp add: model_defs sample_defs)

text \<open>
  C3. When pip was located, the installed query is read and the outdated query fails,
  \<^verbatim>\<open>getInstalledPackages\<close> resolves with one record per installed package, in order,
  each with its name and version, no latest version and \<open>hasUpdate\<close> false; no error
  notification is shown. (\<^verbatim>\<open>JSON.parse('[]')\<close> is the empty array.)
\<close>

theorem getInstalledPackages_outdated_failure:
  assumes "getPipCommand w s = (Inr pc, s1)"
    and "executeCommand w (command pc) (args pc @ [''list'', ''--format=json'']) (envPath pc) s1
           = (Inr output, s2)"
    and "JSON_parse_listed w output = Inr packagesData"
    and "executeCommand w (command pc) (args pc @ [''list'', ''--outdated'', ''--format=json''])
           (envPath pc) s2 = (Inl e, s3)"
    and "JSON_parse_outdated w ''[]'' = Inr []"
  shows "\<exists>ps. fst (getInstalledPackages w s) = Inr ps
     \<and> map PackageInfo.name ps = map listed_name packagesData
     \<and> map version ps = map listed_version packagesData
     \<and> list_all (\<lambda>p. latest p = None \<and> hasUpdate p = Some False) ps
     \<and> notifications (snd (getInstalledPackages w s)) = notifications s3"
proof -
  have j: "JSON_parse_outdated w (case (Inl e :: error + string) of Inr out \<Rightarrow> out | Inl e \<Rightarrow> ''[]'')
             = Inr []"
    using assms(5) by simp
  obtain ps where ps:
      "getInstalledPackages w s
         = (Inr ps, snd (packages_with_details w pc (outdatedMap []) packagesData [] s3))"
      "map (\<lambda>p. (PackageInfo.name p, version p, latest p, hasUpdate p)) ps
         = map (\<lambda>d. (listed_name d, listed_version d, outdatedMap [] (listed_name d),
                     Some (truthy (outdatedMap [] (listed_name d))))) packagesData"
    using getInstalledPackages_try_fields[OF assms(1-4) j] by auto
  note f = map_fields_all[OF ps(2)]
  have "list_all (\<lambda>p. latest p = None \<and> hasUpdate p = Some False) ps"
    using f by (auto simp add: list_all_iff outdatedMap_def truthy_def)
  moreover have "notifications (snd (getInstalledPackages w s)) = notifications s3"
    using ps(1) by (simp add: packages_with_details_notifications)
  ultimately show ?thesis using ps(1) f by auto
qed

theorem getInstalledPackages_outdated_failure_witness:
  "JSON_parse_outdated w_outdated_fails ''[]'' = Inr []
   \<and> fst (executeCommand w_outdated_fails ''/usr/bin/python3''
            [''-m'', ''pip'', ''list'', ''--outdated'', ''--format=json''] None idle)
       = Inl (CommandFailed (Some 1) ''ERROR: network unreachable'')
   \<and> fst (getInstalledPackages w_outdated_fails idle)
       = Inr [\<lparr>PackageInfo.name = ''requests'', version = ''2.28.0'', latest = None,
               description = Some ''Python HTTP for Humans.'', hasUpdate = Some False\<rparr>]
   \<and> notifications (snd (getInstalledPackages w_outdated_fails idle)) = []"
proof -
  let ?pc = "\<lparr>command = ''/usr/bin/python3'', args = [''-m'', ''pip''], envPath = None\<rparr>"
  let ?s1 = "snd (getPipCommand w_outdated_fails idle)"
  let ?l = "executeCommand w_outdated_fails ''/usr/bin/python3''
              [''-m'', ''pip'', ''list'', ''--format=json''] None ?s1"
  let ?o = "executeCommand w_outdated_fails ''/usr/bin/python3''
              [''-m'', ''pip'', ''list'', ''--outdated'', ''--format=json''] None (snd ?l)"
  have p: "getPipCommand w_outdated_fails idle = (Inr ?pc, ?s1)"
    by (simp add: prod_eq_iff model_defs sample_defs)
  have l: "executeCommand w_outdated_fails (command ?pc) (args ?pc @ [''list'', ''--format=json''])
             (envPath ?pc) ?s1 = (Inr json_requests, snd ?l)"
    by (simp add: prod_eq_iff executeCommand_def cmdPath_def w_outdated_fails_def pip_host_def
          pip_requests_def Let_def)
  have jl: "JSON_parse_listed w_outdated_fails json_requests = Inr [Listed ''requests'' ''2.28.0'']"
    by (simp add: w_outdated_fails_def pip_host_def parse_listed_sample_def)
  have o: "executeCommand w_outdated_fails (command ?pc)
             (args ?pc @ [''list'', ''--outdated'', ''--format=json'']) (envPath ?pc) (snd ?l)
           = (Inl (CommandFailed (Some 1) ''ERROR: network unreachable''), snd ?o)"
    by (simp add: prod_eq_iff executeCommand_def cmdPath_def w_outdated_fails_def pip_host_def
          pip_requests_def Let_def)
  have j: "JSON_parse_outdated w_outdated_fails ''[]'' = Inr []"
    by (simp add: w_outdated_fails_def pip_host_def parse_outdated_sample_def)
  have v: "fst (getInstalledPackages w_outdated_fails idle)
       = Inr [\<lparr>PackageInfo.name = ''requests'', version = ''2.28.0'', latest = None,
               description = Some ''Python HTTP for Humans.'', hasUpdate = Some False\<rparr>]"
    by (simp add: model_defs sample_defs)
  have x: "fst (executeCommand w_outdated_fails ''/usr/bin/python3''
            [''-m'', ''pip'', ''list'', ''--outdated'', ''--format=json''] None idle)
       = Inl (CommandFailed (Some 1) ''ERROR: network unreachable'')"
    by (simp add: model_defs sample_defs)
  have n: "notifications (snd ?o) = []"
    by (simp add: model_defs sample_defs)
  show ?thesis
    using getInstalledPackages_outdated_failure[OF p l jl o j] j v x n by simp
qed

text \<open>
  C6, as the code has it. When both queries are read, the record built for an installed
  package has as \<open>latest\<close> what the outdated lookup holds for the package's name, and
  its \<open>hasUpdate\<close> is true exactly when the lookup holds a latest version for that name
  that is not the empty string. The installed version plays no part: a record whose
  latest version equals its non-empty installed version is flagged.
\<close>

theorem getInstalledPackages_hasUpdate:
  assumes "getPipCommand w s = (Inr pc, s1)"
    and "executeCommand w (command pc) (args pc @ [''list'', ''--format=json'']) (envPath pc) s1
           = (Inr output, s2)"
    and "JSON_parse_listed w output = Inr packagesData"
    and "executeCommand w (command pc) (args pc @ [''list'', ''--outdated'', ''--format=json''])
           (envPath pc) s2 = (r, s3)"
    and "JSON_parse_outdated w (case r of Inr out \<Rightarrow> out | Inl e \<Rightarrow> ''[]'') = Inr outdatedPackages"
  shows "\<exists>ps. fst (getInstalledPackages w s) = Inr ps
     \<and> map (\<lambda>p. (PackageInfo.name p, version p, latest p, hasUpdate p)) ps
         = map (\<lambda>d. (listed_name d, listed_version d,
                     outdatedMap outdatedPackages (listed_name d),
                     Some (\<exists>v. outdatedMap outdatedPackages (listed_name d) = Some v \<and> v \<noteq> [])))
             packagesData
     \<and> list_all (\<lambda>p. hasUpdate p = Some (latest p \<noteq> None \<and> latest p \<noteq> Some [])) ps
     \<and> list_all (\<lambda>p. latest p = Some (version p) \<and> version p \<noteq> [] \<longrightarrow> hasUpdate p = Some True) ps"
proof -
  let ?m = "outdatedMap outdatedPackages"
  let ?ps = "fst (packages_with_details w pc ?m packagesData [] s3)"
  have e: "\<And>v. truthy v = (\<exists>x. v = Some x \<and> x \<noteq> [])"
    by (auto simp add: truthy_def split: option.splits)
  have e': "\<And>v. truthy v = (v \<noteq> None \<and> v \<noteq> Some [])"
    by (auto simp add: truthy_def split: option.splits)
  have r: "fst (getInstalledPackages w s) = Inr ?ps"
    using assms by (rule getInstalledPackages_success)
  have fl: "map (\<lambda>p. (PackageInfo.name p, version p, latest p, hasUpdate p)) ?ps
         = map (\<lambda>d. (listed_name d, listed_version d, ?m (listed_name d),
                     Some (truthy (?m (listed_name d))))) packagesData"
    using packages_with_details_fields[of w pc ?m packagesData "[]" s3] by simp
  have 1: "map (\<lambda>p. (PackageInfo.name p, version p, latest p, hasUpdate p)) ?ps
         = map (\<lambda>d. (listed_name d, listed_version d, ?m (listed_name d),
                     Some (\<exists>v. ?m (listed_name d) = Some v \<and> v \<noteq> []))) packagesData"
    using fl by (simp add: e)
  have 2: "list_all (\<lambda>p. hasUpdate p = Some (truthy (latest p))) ?ps"
    using map_fields_all[OF fl] by simp
  have 3: "list_all (\<lambda>p. hasUpdate p = Some (latest p \<noteq> None \<and> latest p \<noteq> Some [])) ?ps"
    using 2 by (simp add: e')
  have 4: "list_all (\<lambda>p. latest p = Some (version p) \<and> version p \<noteq> [] \<longrightarrow> hasUpdate p = Some True) ?ps"
    using 3 by (auto simp add: list_all_iff)
  show ?thesis using r 1 3 4 by blast
qed

theorem getInstalledPackages_hasUpdate_witness:
  "JSON_parse_listed w_same_latest json_requests = Inr [Listed ''requests'' ''2.28.0'']
   \<and> JSON_parse_outdated w_same_latest json_requests_same
       = Inr [Outdated ''requests'' ''2.28.0'' ''2.28.0'']
   \<and> outdatedMap [Outdated ''requests'' ''2.28.0'' ''2.28.0''] ''requests'' = Some ''2.28.0''
   \<and> (\<exists>ps. fst (getInstalledPackages w_same_latest idle) = Inr ps
         \<and> map (\<lambda>p. (PackageInfo.name p, version p, latest p, hasUpdate p)) ps
             = [(''requests'', ''2.28.0'', Some ''2.28.0'', Some True)])"
proof -
  let ?pc = "\<lparr>command = ''/usr/bin/python3'', args = [''-m'', ''pip''], envPath = None\<rparr>"
  let ?s1 = "snd (getPipCommand w_same_latest idle)"
  let ?l = "executeCommand w_same_latest ''/usr/bin/python3''
              [''-m'', ''pip'', ''list'', ''--format=json''] None ?s1"
  let ?o = "executeCommand w_same_latest ''/usr/bin/python3''
              [''-m'', ''pip'', ''list'', ''--outdated'', ''--format=json''] None (snd ?l)"
  have p: "getPipCommand w_same_latest idle = (Inr ?pc, ?s1)"
    by (simp add: prod_eq_iff model_defs sample_defs)
  have l: "executeCommand w_same_latest (command ?pc) (args ?pc @ [''list'', ''--format=json''])
             (envPath ?pc) ?s1 = (Inr json_requests, snd ?l)"
    by (simp add: prod_eq_iff executeCommand_def cmdPath_def w_same_latest_def pip_host_def
          pip_requests_def Let_def)
  have jl: "JSON_parse_listed w_same_latest json_requests = Inr [Listed ''requests'' ''2.28.0'']"
    by (simp add: w_same_latest_def pip_host_def parse_listed_sample_def)
  have o: "executeCommand w_same_latest (command ?pc)
             (args ?pc @ [''list'', ''--outdated'', ''--format=json'']) (envPath ?pc) (snd ?l)
           = (Inr json_requests_same, snd ?o)"
    by (simp add: prod_eq_iff executeCommand_def cmdPath_def w_same_latest_def pip_host_def
          pip_requests_def Let_def)
  have jo: "JSON_parse_outdated w_same_latest json_requests_same
              = Inr [Outdated ''requests'' ''2.28.0'' ''2.28.0'']"
    by (simp add: sample_defs)
  have jo': "JSON_parse_outdated w_same_latest
               (case (Inr json_requests_same :: error + string) of Inr out \<Rightarrow> out | Inl e \<Rightarrow> ''[]'')
              = Inr [Outdated ''requests'' ''2.28.0'' ''2.28.0'']"
    using jo by simp
  have m: "outdatedMap [Outdated ''requests'' ''2.28.0'' ''2.28.0''] ''requests'' = Some ''2.28.0''"
    by (simp add: outdatedMap_def)
  have "\<exists>ps. fst (getInstalledPackages w_same_latest idle) = Inr ps
         \<and> map (\<lambda>p. (PackageInfo.name p, version p, latest p, hasUpdate p)) ps
             = [(''requests'', ''2.28.0'', Some ''2.28.0'', Some True)]"
    using getInstalledPackages_hasUpdate[OF p l jl o jo'] m by auto
  then show ?thesis using jl jo m by simp
qed

text \<open>
  C6, as the claim states it, fails: when the outdated list reports for \<^verbatim>\<open>requests\<close>
  a latest version equal to the installed version, the record is flagged all the same.
\<close>

theorem hasUpdate_same_version_counterexample:
  "JSON_parse_outdated w_same_latest json_requests_same
     = Inr [Outdated ''requests'' ''2.28.0'' ''2.28.0'']
   \<and> fst (getInstalledPackages w_same_latest idle)
       = Inr [\<lparr>PackageInfo.name = ''requests'', version = ''2.28.0'', latest = Some ''2.28.0'',
               description = Some ''Python HTTP for Humans.'', hasUpdate = Some True\<rparr>]"
  by (simp add: model_defs sample_defs)

section \<open>Locating pip\<close>

text \<open>
  C5. When an environment is selected and its pip executable is absent or not
  executable, \<^verbatim>\<open>getPipCommand\<close> does what the interpreter lookup does: it returns
  the interpreter that \<^verbatim>\<open>getPythonPath\<close> found, with the arguments \<^verbatim>\<open>-m pip\<close>, and
  it fails exactly when \<^verbatim>\<open>getPythonPath\<close> fails, which is the not-found error.
\<close>

theorem getPipCommand_fallback:
  assumes "currentEnv s = Some r"
    and "\<not> access_X_OK w (spawned s) (pipPath w (path (heap s r)))"
  shows "getPipCommand w s =
           (case getPythonPath w s of
              (Inl e, s') \<Rightarrow> (Inl e, s')
            | (Inr pythonPath, s') \<Rightarrow>
                (Inr \<lparr>command = pythonPath, args = [''-m'', ''pip''], envPath = None\<rparr>, s'))
       \<and> (isl (fst (getPipCommand w s)) = (fst (getPythonPath w s) = Inl NoPythonFound))"
proof -
  have 1: "getPipCommand w s = pythonModulePip w s"
    using assms by (simp add: getPipCommand_def)
  obtain r' s' where g: "getPythonPath w s = (r', s')" by (cases "getPythonPath w s")
  show ?thesis
  proof (cases r')
    case (Inl e)
    with g getPythonPath_error[of w s e] show ?thesis
      by (simp add: 1 pythonModulePip_def)
  next
    case (Inr p)
    with g show ?thesis by (simp add: 1 pythonModulePip_def)
  qed
qed

theorem getPipCommand_fallback_witness:
  "currentEnv venv_active = Some 0
   \<and> pipPath (pip_host pip_fails) (path (heap venv_active 0)) = ''/proj/venv/bin/pip''
   \<and> \<not> access_X_OK (pip_host pip_fails) (spawned venv_active) ''/proj/venv/bin/pip''
   \<and> fst (getPythonPath (pip_host pip_fails) venv_active) = Inr ''/usr/bin/python3''
   \<and> fst (getPipCommand (pip_host pip_fails) venv_active)
       = Inr \<lparr>command = ''/usr/bin/python3'', args = [''-m'', ''pip''], envPath = None\<rparr>
   \<and> fst (getPythonPath w_no_python venv_active) = Inl NoPythonFound
   \<and> fst (getPipCommand w_no_python venv_active) = Inl NoPythonFound"
proof -
  have c: "currentEnv venv_active = Some 0"
    by (simp add: sample_defs)
  have p: "pipPath (pip_host pip_fails) (path (heap venv_active 0)) = ''/proj/venv/bin/pip''"
    by (simp add: pipPath_def binDir_def sample_defs)
  have a: "\<not> access_X_OK (pip_host pip_fails) (spawned venv_active)
               (pipPath (pip_host pip_fails) (path (heap venv_active 0)))"
    by (simp add: sample_defs)
  have p': "pipPath w_no_python (path (heap venv_active 0)) = ''/proj/venv/bin/pip''"
    by (simp add: pipPath_def binDir_def sample_defs)
  have a': "\<not> access_X_OK w_no_python (spawned venv_active)
               (pipPath w_no_python (path (heap venv_active 0)))"
    by (simp add: sample_defs)
  have g: "getPythonPath (pip_host pip_fails) venv_active
             = (Inr ''/usr/bin/python3'', snd (getPythonPath (pip_host pip_fails) venv_active))"
    by (simp add: prod_eq_iff model_defs sample_defs)
  have g': "getPythonPath w_no_python venv_active
             = (Inl NoPythonFound, snd (getPythonPath w_no_python venv_active))"
    by (simp add: prod_eq_iff model_defs sample_defs)
  have g1: "fst (getPythonPath (pip_host pip_fails) venv_active) = Inr ''/usr/bin/python3''"
    using g by (rule arg_cong[where f=fst, THEN trans]) simp
  have g1': "fst (getPythonPath w_no_python venv_active) = Inl NoPythonFound"
    using g' by (rule arg_cong[where f=fst, THEN trans]) simp
  have r: "fst (getPipCommand (pip_host pip_fails) venv_active)
       = Inr \<lparr>command = ''/usr/bin/python3'', args = [''-m'', ''pip''], envPath = None\<rparr>"
    using getPipCommand_fallback[OF c a, THEN conjunct1] g
    by (simp split: prod.splits)
  have r': "fst (getPipCommand w_no_python venv_active) = Inl NoPythonFound"
    using getPipCommand_fallback[OF c a', THEN conjunct1] g'
    by (simp split: prod.splits)
  show ?thesis
    using c p a g1 r g1' r' by simp
qed

section \<open>Batch update\<close>

text \<open>
  C9. \<^verbatim>\<open>updatePackages\<close> applied to the empty list of names returns the result with
  both lists empty and leaves the state as it was: in particular the history of
  processes started is unchanged, so no external process is spawned.
\<close>

theorem updatePackages_empty:
  "updatePackages w [] s = (Inr \<lparr>success = [], failed = []\<rparr>, s)
   \<and> spawned (snd (updatePackages w [] s)) = spawned s"
  by (simp add: updatePackages_def)

text \<open>
  C4. For a non-empty list of names:
  \<^item> when pip cannot be located, every requested name is reported failed;
  \<^item> when the combined upgrade succeeds, every requested name is reported succeeded
    and none failed;
  \<^item> when the combined upgrade fails, each name is upgraded on its own, in order: the
    succeeded list holds the names whose own upgrade resolved, the failed list the
    others, and one process has been started for every name, whatever the outcome of
    the earlier ones.
\<close>

theorem updatePackages_nonempty:
  assumes "packageNames \<noteq> []"
  shows "(\<forall>e s1. getPipCommand w s = (Inl e, s1) \<longrightarrow>
            updatePackages w packageNames s = (Inr \<lparr>success = [], failed = packageNames\<rparr>, s1))
     \<and> (\<forall>pc s1 out s2.
            getPipCommand w s = (Inr pc, s1) \<and>
            executeCommand w (command pc) (args pc @ [''install'', ''--upgrade''] @ packageNames)
              (envPath pc) s1 = (Inr out, s2) \<longrightarrow>
            updatePackages w packageNames s = (Inr \<lparr>success = packageNames, failed = []\<rparr>, s2))
     \<and> (\<forall>pc s1 e s2.
            getPipCommand w s = (Inr pc, s1) \<and>
            executeCommand w (command pc) (args pc @ [''install'', ''--upgrade''] @ packageNames)
              (envPath pc) s1 = (Inl e, s2) \<longrightarrow>
            updatePackages w packageNames s =
              (Inr \<lparr>success = map ((!) packageNames)
                       (filter (upgradeSucceeds w pc packageNames s2) [0..<length packageNames]),
                    failed = map ((!) packageNames)
                       (filter (\<lambda>i. \<not> upgradeSucceeds w pc packageNames s2 i)
                          [0..<length packageNames])\<rparr>,
               beforeUpgrade w pc packageNames s2 (length packageNames)))"
  using assms
  by (auto simp add: updatePackages_def updateEach_char)

theorem updatePackages_nonempty_witness:
  "[''a'', ''b''] \<noteq> ([] :: string list)
   \<and> fst (getPipCommand w_no_python idle) = Inl NoPythonFound
   \<and> fst (updatePackages w_no_python [''a'', ''b''] idle)
       = Inr \<lparr>success = [], failed = [''a'', ''b'']\<rparr>
   \<and> fst (updatePackages w_batch_ok [''a'', ''b''] idle)
       = Inr \<lparr>success = [''a'', ''b''], failed = []\<rparr>
   \<and> fst (updatePackages w_a_only [''a'', ''b''] idle)
       = Inr \<lparr>success = [''a''], failed = [''b'']\<rparr>
   \<and> length (spawned (snd (updatePackages w_a_only [''a'', ''b''] idle))) = 5"
proof -
  let ?pc = "\<lparr>command = ''/usr/bin/python3'', args = [''-m'', ''pip''], envPath = None\<rparr>"
  let ?names = "[''a'', ''b'']"
  let ?batch = "\<lambda>w. executeCommand w ''/usr/bin/python3''
                  [''-m'', ''pip'', ''install'', ''--upgrade'', ''a'', ''b''] None
                  (snd (getPipCommand w idle))"
  have ne: "?names \<noteq> []" by simp
  have n: "getPipCommand w_no_python idle = (Inl NoPythonFound, snd (getPipCommand w_no_python idle))"
    by (simp add: prod_eq_iff model_defs sample_defs)
  have n1: "fst (getPipCommand w_no_python idle) = Inl NoPythonFound"
    using n by (rule arg_cong[where f=fst, THEN trans]) simp
  have p: "getPipCommand w_batch_ok idle = (Inr ?pc, snd (getPipCommand w_batch_ok idle))"
    by (simp add: prod_eq_iff model_defs sample_defs)
  have b: "executeCommand w_batch_ok (command ?pc) (args ?pc @ [''install'', ''--upgrade''] @ ?names)
             (envPath ?pc) (snd (getPipCommand w_batch_ok idle))
           = (Inr ''Successfully installed a b'', snd (?batch w_batch_ok))"
    by (simp add: prod_eq_iff model_defs sample_defs)
  have p': "getPipCommand w_a_only idle = (Inr ?pc, snd (getPipCommand w_a_only idle))"
    by (simp add: prod_eq_iff model_defs sample_defs)
  have b': "executeCommand w_a_only (command ?pc) (args ?pc @ [''install'', ''--upgrade''] @ ?names)
             (envPath ?pc) (snd (getPipCommand w_a_only idle))
           = (Inl (CommandFailed (Some 1) ''ERROR''), snd (?batch w_a_only))"
    by (simp add: prod_eq_iff model_defs sample_defs)
  have u0: "upgradeSucceeds w_a_only ?pc ?names (snd (?batch w_a_only)) 0"
    by (simp add: model_defs sample_defs)
  have u1: "\<not> upgradeSucceeds w_a_only ?pc ?names (snd (?batch w_a_only)) 1"
    by (simp add: model_defs sample_defs)
  have l: "length (spawned (beforeUpgrade w_a_only ?pc ?names (snd (?batch w_a_only))
                             (length ?names))) = 5"
    by (simp add: model_defs sample_defs)
  have i: "[0..<length ?names] = [0, 1]"
    by (simp add: upt_conv_Cons)
  note t = updatePackages_nonempty[OF ne]
  have 1: "updatePackages w_no_python ?names idle
             = (Inr \<lparr>success = [], failed = ?names\<rparr>, snd (getPipCommand w_no_python idle))"
    using t[of w_no_python idle] n by blast
  have 2: "updatePackages w_batch_ok ?names idle
             = (Inr \<lparr>success = ?names, failed = []\<rparr>, snd (?batch w_batch_ok))"
    using t[of w_batch_ok idle] p b by blast
  have 3: "updatePackages w_a_only ?names idle =
              (Inr \<lparr>success = map ((!) ?names)
                       (filter (upgradeSucceeds w_a_only ?pc ?names (snd (?batch w_a_only)))
                          [0..<length ?names]),
                    failed = map ((!) ?names)
                       (filter (\<lambda>i. \<not> upgradeSucceeds w_a_only ?pc ?names (snd (?batch w_a_only)) i)
                          [0..<length ?names])\<rparr>,
               beforeUpgrade w_a_only ?pc ?names (snd (?batch w_a_only)) (length ?names))"
    using t[of w_a_only idle] p' b' by blast
  have 4: "updatePackages w_a_only ?names idle =
              (Inr \<lparr>success = [''a''], failed = [''b'']\<rparr>,
               beforeUpgrade w_a_only ?pc ?names (snd (?batch w_a_only)) (length ?names))"
    unfolding 3 i using u0 u1 by simp
  show ?thesis
    using n1 1 2 4 l by simp
qed

section \<open>Enumerating virtual environments\<close>

text \<open>
  C7. \<^verbatim>\<open>getVirtualEnvironments\<close> always resolves and leaves the state as it was.
  With no workspace folders it resolves with the empty list. Every record it returns is
  a candidate \<^verbatim>\<open><workspace folder>/<name>\<close> for a name of the fixed candidate list, and
  that path is a directory whose interior interpreter path
  (\<^verbatim>\<open>bin/python\<close>, or \<^verbatim>\<open>Scripts/python.exe\<close> on Windows) is a file.
\<close>

theorem getVirtualEnvironments_valid:
  "(workspaceFolders w = None \<longrightarrow> getVirtualEnvironments w s = (Inr [], s))
   \<and> (\<exists>envs. getVirtualEnvironments w s = (Inr envs, s)
         \<and> (\<forall>e\<in>set envs.
               \<exists>folder\<in>set (case workspaceFolders w of None \<Rightarrow> [] | Some fs \<Rightarrow> fs).
                 name e \<in> set envFolders \<and> path e = path_join w [folder, name e]
                 \<and> stat w (spawned s) (path e) = Some IsDirectory
                 \<and> stat w (spawned s) (pythonExePath w (path e)) = Some IsFile))"
proof (cases "workspaceFolders w")
  case None
  then show ?thesis by (simp add: getVirtualEnvironments_def)
next
  case (Some folders)
  have "\<forall>e\<in>set (scanFolders w s folders []). validEnv w s ([] @ folders) e"
    by (rule scanFolders_valid) simp
  then show ?thesis using Some
    by (simp add: getVirtualEnvironments_def validEnv_def)
qed

theorem getVirtualEnvironments_valid_witness:
  "workspaceFolders (pip_host pip_fails) = None
   \<and> getVirtualEnvironments (pip_host pip_fails) idle = (Inr [], idle)
   \<and> workspaceFolders w_workspace = Some [''/proj'']
   \<and> stat w_workspace (spawned idle) ''/proj/venv'' = Some IsDirectory
   \<and> stat w_workspace (spawned idle) (pythonExePath w_workspace ''/proj/venv'') = None
   \<and> fst (getVirtualEnvironments w_workspace idle)
       = Inr [\<lparr>name = ''.venv'', path = ''/proj/.venv'', isActive = False\<rparr>]
   \<and> stat w_workspace (spawned idle) ''/proj/.venv'' = Some IsDirectory
   \<and> stat w_workspace (spawned idle) (pythonExePath w_workspace ''/proj/.venv'') = Some IsFile"
proof -
  have n: "workspaceFolders (pip_host pip_fails) = None"
    by (simp add: sample_defs)
  have 1: "getVirtualEnvironments (pip_host pip_fails) idle = (Inr [], idle)"
    using getVirtualEnvironments_valid[of "pip_host pip_fails" idle] n by blast
  have 2: "fst (getVirtualEnvironments w_workspace idle)
       = Inr [\<lparr>name = ''.venv'', path = ''/proj/.venv'', isActive = False\<rparr>]"
    by (simp add: model_defs sample_defs)
  have 3: "stat w_workspace (spawned idle) ''/proj/venv'' = Some IsDirectory
     \<and> stat w_workspace (spawned idle) (pythonExePath w_workspace ''/proj/venv'') = None
     \<and> stat w_workspace (spawned idle) ''/proj/.venv'' = Some IsDirectory
     \<and> stat w_workspace (spawned idle) (pythonExePath w_workspace ''/proj/.venv'') = Some IsFile
     \<and> workspaceFolders w_workspace = Some [''/proj'']"
    by (simp add: model_defs sample_defs)
  show ?thesis using n 1 2 3 by simp
qed

section \<open>The active environment\<close>





end
